theory Spec2Isabelle
  imports Complex_Main "HOL-Library.Multiset" "HOL-Library.Char_ord" "HOL-Library.List_Lexorder"
begin

section \<open>Python strings\<close>

text \<open>
  A Python \<open>str\<close> is modelled as a \<open>string\<close> (a list of 8-bit characters), so the
  model covers ASCII text: \<open>str.lower\<close> and \<open>str.upper\<close> change the 26 Latin
  letters only, \<open>str.strip\<close> removes the ASCII characters for which
  \<open>str.isspace\<close> holds, and \<open>\d\<close> matches the ten ASCII digits.
\<close>

definition lower_char :: "char \<Rightarrow> char" where
  "lower_char c =
     (if CHR ''A'' \<le> c \<and> c \<le> CHR ''Z'' then char_of (of_char c + (32::nat)) else c)"

definition upper_char :: "char \<Rightarrow> char" where
  "upper_char c =
     (if CHR ''a'' \<le> c \<and> c \<le> CHR ''z'' then char_of (of_char c - (32::nat)) else c)"

definition lower :: "string \<Rightarrow> string" where
  "lower s = map lower_char s"

definition upper :: "string \<Rightarrow> string" where
  "upper s = map upper_char s"

definition is_space :: "char \<Rightarrow> bool" where
  "is_space c =
     (c = CHR '' '' \<or> c = CHR 0x09 \<or> c = CHR 0x0A \<or> c = CHR 0x0B \<or> c = CHR 0x0C
      \<or> c = CHR 0x0D \<or> c = CHR 0x1C \<or> c = CHR 0x1D \<or> c = CHR 0x1E \<or> c = CHR 0x1F)"

definition strip :: "string \<Rightarrow> string" where
  "strip s = rev (dropWhile is_space (rev (dropWhile is_space s)))"

definition is_digit :: "char \<Rightarrow> bool" where
  "is_digit c = (CHR ''0'' \<le> c \<and> c \<le> CHR ''9'')"

fun startswith :: "string \<Rightarrow> string \<Rightarrow> bool" where
  "startswith s [] = True"
| "startswith [] (p # ps) = False"
| "startswith (c # cs) (p # ps) = (c = p \<and> startswith cs ps)"

text \<open>\<open>contains sub s\<close> is Python's \<open>sub in s\<close> on strings.\<close>

fun contains :: "string \<Rightarrow> string \<Rightarrow> bool" where
  "contains sub [] = (sub = [])"
| "contains sub (c # cs) = (startswith (c # cs) sub \<or> contains sub cs)"

text \<open>\<open>join sep xs\<close> is Python's \<open>sep.join(xs)\<close>.\<close>

fun join :: "string \<Rightarrow> string list \<Rightarrow> string" where
  "join sep [] = []"
| "join sep [x] = x"
| "join sep (x # y # ys) = x @ sep @ join sep (y # ys)"

section \<open>Python floats\<close>

text \<open>
  A Python float is a finite number, an infinity or NaN. A finite number is taken as
  a real: the rounding of a result to 53 bits is not modelled, the range of a double
  is. Every comparison with NaN is false, and the builtins \<open>min(a, b)\<close> and
  \<open>max(a, b)\<close> keep their first argument unless the second compares strictly smaller
  (larger).
\<close>

datatype pyfloat = Fin real | PInf | NInf | NaN

fun fl_lt :: "pyfloat \<Rightarrow> pyfloat \<Rightarrow> bool" where
  "fl_lt (Fin a) (Fin b) = (a < b)"
| "fl_lt NaN _ = False"
| "fl_lt _ NaN = False"
| "fl_lt NInf NInf = False"
| "fl_lt NInf _ = True"
| "fl_lt _ NInf = False"
| "fl_lt PInf _ = False"
| "fl_lt _ PInf = True"

definition py_min :: "pyfloat \<Rightarrow> pyfloat \<Rightarrow> pyfloat" where
  "py_min a b = (if fl_lt b a then b else a)"

definition py_max :: "pyfloat \<Rightarrow> pyfloat \<Rightarrow> pyfloat" where
  "py_max a b = (if fl_lt a b then b else a)"

text \<open>
  The range of a double under rounding to nearest: a result of magnitude
  \<open>2 ^ 1024 - 2 ^ 970\<close> or more is rounded to an infinity, a result of magnitude
  \<open>2 ^ - 1075\<close> or less is rounded to zero. Between the two the result is kept as
  it is.
\<close>

definition overflow_threshold :: real where
  "overflow_threshold = 2 ^ 1024 - 2 ^ 970"

definition underflow_threshold :: real where
  "underflow_threshold = 1 / 2 ^ 1075"

definition inf_of_sign :: "real \<Rightarrow> pyfloat" where
  "inf_of_sign s = (if 0 < s then PInf else if s < 0 then NInf else NaN)"

definition fl_round :: "real \<Rightarrow> pyfloat" where
  "fl_round r =
     (if overflow_threshold \<le> \<bar>r\<bar> then inf_of_sign r
      else if \<bar>r\<bar> \<le> underflow_threshold then Fin 0
      else Fin r)"


text \<open>
  Sums, products and quotients of floats as numpy computes them on arrays and as
  Python computes \<open>+\<close> and \<open>*\<close> on floats: no operation raises, an undefined
  result is NaN and a division of a number other than 0 by 0 is an infinity. (A
  Python division by zero raises; the code divides Python floats by a constant only.)
  The sum of two doubles is a multiple of the smallest double, so that it is rounded
  to zero only when it is zero. Zeros carry no sign in the model.
\<close>

fun fl_sign :: "pyfloat \<Rightarrow> real" where
  "fl_sign (Fin a) = sgn a"
| "fl_sign PInf = 1"
| "fl_sign NInf = - 1"
| "fl_sign NaN = 0"


fun fl_add :: "pyfloat \<Rightarrow> pyfloat \<Rightarrow> pyfloat" where
  "fl_add (Fin a) (Fin b) =
     (if overflow_threshold \<le> \<bar>a + b\<bar> then inf_of_sign (a + b) else Fin (a + b))"
| "fl_add NaN _ = NaN"
| "fl_add _ NaN = NaN"
| "fl_add PInf NInf = NaN"
| "fl_add NInf PInf = NaN"
| "fl_add PInf _ = PInf"
| "fl_add _ PInf = PInf"
| "fl_add NInf _ = NInf"
| "fl_add _ NInf = NInf"


fun fl_mul :: "pyfloat \<Rightarrow> pyfloat \<Rightarrow> pyfloat" where
  "fl_mul (Fin a) (Fin b) = fl_round (a * b)"
| "fl_mul NaN _ = NaN"
| "fl_mul _ NaN = NaN"
| "fl_mul x y = inf_of_sign (fl_sign x * fl_sign y)"

fun fl_div :: "pyfloat \<Rightarrow> pyfloat \<Rightarrow> pyfloat" where
  "fl_div (Fin a) (Fin b) = (if b = 0 then inf_of_sign (sgn a) else fl_round (a / b))"
| "fl_div NaN _ = NaN"
| "fl_div _ NaN = NaN"
| "fl_div (Fin a) _ = Fin 0"
| "fl_div x (Fin b) = inf_of_sign (fl_sign x * (if b < 0 then - 1 else 1))"
| "fl_div _ _ = NaN"

fun fl_sqrt :: "pyfloat \<Rightarrow> pyfloat" where
  "fl_sqrt (Fin a) = (if a < 0 then NaN else Fin (sqrt a))"
| "fl_sqrt PInf = PInf"
| "fl_sqrt _ = NaN"

fun fl_sum :: "pyfloat list \<Rightarrow> pyfloat" where
  "fl_sum [] = Fin 0"
| "fl_sum (x # xs) = fl_add x (fl_sum xs)"

text \<open>
  \<open>np.linalg.norm(e)\<close>, the square root of \<open>e.dot(e)\<close>, and \<open>np.dot(a, b)\<close> on
  one-dimensional arrays.
\<close>

definition np_norm :: "pyfloat list \<Rightarrow> pyfloat" where
  "np_norm e = fl_sqrt (fl_sum (map (\<lambda>x. fl_mul x x) e))"

datatype exn =
  TypeError | ValueError | KeyError | AttributeError | OverflowError | ValidationError
  | UpstreamError string

definition np_dot :: "pyfloat list \<Rightarrow> pyfloat list \<Rightarrow> exn + pyfloat" where
  "np_dot a b =
     (if length a \<noteq> length b then Inl ValueError else Inr (fl_sum (map2 fl_mul a b)))"


section \<open>JSON values\<close>

text \<open>
  What \<open>json.loads\<close> decodes: a number written without fraction and exponent is an
  \<open>int\<close>, any other number a float.
\<close>

datatype json =
  JNull | JBool bool | JInt int | JNum pyfloat | JStr string | JArr "json list"
  | JObj "(string \<times> json) list"

text \<open>
  \<open>json.loads\<close> turns an object into a dict, in which a later duplicate of a key
  replaces the earlier one.
\<close>

definition dict_get :: "(string \<times> json) list \<Rightarrow> string \<Rightarrow> json option" where
  "dict_get kvs k = map_of (rev kvs) k"

text \<open>\<open>d[k]\<close> on a decoded JSON value.\<close>

fun py_getitem :: "json \<Rightarrow> string \<Rightarrow> exn + json" where
  "py_getitem (JObj kvs) k = (case dict_get kvs k of None \<Rightarrow> Inl KeyError | Some v \<Rightarrow> Inr v)"
| "py_getitem _ k = Inl TypeError"

text \<open>\<open>d.get(k, dflt)\<close> on a decoded JSON value: only a dict has the method.\<close>

fun py_get :: "json \<Rightarrow> string \<Rightarrow> json \<Rightarrow> exn + json" where
  "py_get (JObj kvs) k dflt = (case dict_get kvs k of None \<Rightarrow> Inr dflt | Some v \<Rightarrow> Inr v)"
| "py_get _ k dflt = Inl AttributeError"

text \<open>The keys of a decoded object, in the order of their first occurrence.\<close>

definition dict_keys :: "(string \<times> json) list \<Rightarrow> string list" where
  "dict_keys kvs = rev (remdups (rev (map fst kvs)))"

fun py_len :: "json \<Rightarrow> exn + nat" where
  "py_len (JArr xs) = Inr (length xs)"
| "py_len (JStr s) = Inr (length s)"
| "py_len (JObj kvs) = Inr (length (dict_keys kvs))"
| "py_len _ = Inl TypeError"

text \<open>
  Iteration over a decoded JSON value: the elements of a list, the one-character
  strings of a string, the keys of a dict.
\<close>

fun py_iter :: "json \<Rightarrow> exn + json list" where
  "py_iter (JArr xs) = Inr xs"
| "py_iter (JStr s) = Inr (map (\<lambda>c. JStr [c]) s)"
| "py_iter (JObj kvs) = Inr (map JStr (dict_keys kvs))"
| "py_iter _ = Inl TypeError"

text \<open>
  \<open>float(s)\<close> on a decoded JSON value. An \<open>int\<close> out of the range of a double
  raises OverflowError. The conversion of a string is Python's own parser, a parameter
  here: \<open>None\<close> where it raises \<open>ValueError\<close>.
\<close>

fun py_float :: "(string \<Rightarrow> pyfloat option) \<Rightarrow> json \<Rightarrow> exn + pyfloat" where
  "py_float float_of_str (JNum x) = Inr x"
| "py_float float_of_str (JInt i) =
     (if overflow_threshold \<le> \<bar>real_of_int i\<bar> then Inl OverflowError
      else Inr (Fin (real_of_int i)))"
| "py_float float_of_str (JBool b) = Inr (Fin (if b then 1 else 0))"
| "py_float float_of_str (JStr s) =
     (case float_of_str s of None \<Rightarrow> Inl ValueError | Some x \<Rightarrow> Inr x)"
| "py_float float_of_str _ = Inl TypeError"

text \<open>
  The outcome of one completion call followed by \<open>json.loads\<close> of its content: the
  call raised, the content was not JSON, or a value was decoded.
\<close>

datatype upstream = CallFailed | NotJson | Decoded json

section \<open>Parsed prompts\<close>

record parsed_prompt =
  aesthetic :: string
  budget :: "int option"
  size :: "string option"
  gender :: "string option"
  occasion :: "string option"
  categories :: "string list"

section \<open>Plan service\<close>

text \<open>\<open>PlanService._create_fallback_plan\<close>.\<close>

definition create_fallback_plan :: "parsed_prompt \<Rightarrow> string list \<times> string \<times> bool" where
  "create_fallback_plan parsed_prompt =
     (let aesthetic_lower = lower (aesthetic parsed_prompt);
          (items, reasoning) =
            (if contains ''korean'' aesthetic_lower \<or> contains ''minimal'' aesthetic_lower then
               ([''oversized t-shirt'', ''straight pants'', ''white sneakers''],
                ''Korean minimal aesthetic with clean lines and neutral colors'')
             else if contains ''street'' aesthetic_lower then
               ([''graphic hoodie'', ''cargo pants'', ''chunky sneakers''],
                ''Streetwear with bold graphics and utility elements'')
             else if contains ''y2k'' aesthetic_lower then
               ([''crop top'', ''low-rise jeans'', ''platform shoes''],
                ''Y2K aesthetic with 2000s-inspired pieces'')
             else if contains ''vintage'' aesthetic_lower then
               ([''vintage blouse'', ''high-waisted skirt''],
                ''Vintage style with classic silhouettes'')
             else if contains ''athle'' aesthetic_lower \<or> contains ''sport'' aesthetic_lower then
               ([''sports top'', ''leggings'', ''running shoes''],
                ''Athleisure combining athletic and casual style'')
             else if contains ''office'' aesthetic_lower \<or> contains ''formal'' aesthetic_lower then
               ([''button-down shirt'', ''chino pants''],
                ''Office wear balancing professionalism and comfort'')
             else
               ([''casual top'', ''comfortable pants''],
                ''Casual outfit for '' @ aesthetic parsed_prompt @ '' aesthetic''));
          items' =
            (if ''shoes'' \<in> set (categories parsed_prompt) \<and> length items = 2
             then items @ [''casual shoes''] else items)
      in (take 4 items', reasoning, False))"

text \<open>
  The try block of \<open>PlanService.plan_outfit\<close> after the completion call: the decoded
  plan is read and its item count validated. \<open>Inr None\<close> is the early return of the
  fallback plan on an invalid count.
\<close>

definition read_plan :: "json \<Rightarrow> exn + (json \<times> json) option" where
  "read_plan plan_data =
     (case py_getitem plan_data ''items'' of
        Inl e \<Rightarrow> Inl e
      | Inr items \<Rightarrow>
          (case py_get plan_data ''reasoning'' (JStr '''') of
             Inl e \<Rightarrow> Inl e
           | Inr reasoning \<Rightarrow>
               (case py_len items of
                  Inl e \<Rightarrow> Inl e
                | Inr n \<Rightarrow> if \<not> (2 \<le> n \<and> n \<le> 4) then Inr None else Inr (Some (items, reasoning)))))"

definition fallback_result :: "parsed_prompt \<Rightarrow> json \<times> json \<times> bool" where
  "fallback_result parsed_prompt =
     (case create_fallback_plan parsed_prompt of
        (items, reasoning, c) \<Rightarrow> (JArr (map JStr items), JStr reasoning, c))"

text \<open>
  \<open>PlanService.plan_outfit\<close>. \<open>cached\<close> is what \<open>_get_cached\<close> returned for the
  request's key. The result is the returned triple together with the plan written to
  the cache, if any.
\<close>

definition plan_outfit ::
  "(json \<times> json) option \<Rightarrow> upstream \<Rightarrow> parsed_prompt \<Rightarrow> (json \<times> json \<times> bool) \<times> (json \<times> json) option" where
  "plan_outfit cached up parsed_prompt =
     (case cached of
        Some (items, reasoning) \<Rightarrow> ((items, reasoning, True), None)
      | None \<Rightarrow>
          (case up of
             CallFailed \<Rightarrow> (fallback_result parsed_prompt, None)
           | NotJson \<Rightarrow> (fallback_result parsed_prompt, None)
           | Decoded plan_data \<Rightarrow>
               (case read_plan plan_data of
                  Inl e \<Rightarrow> (fallback_result parsed_prompt, None)
                | Inr None \<Rightarrow> (fallback_result parsed_prompt, None)
                | Inr (Some (items, reasoning)) \<Rightarrow>
                    ((items, reasoning, False), Some (items, reasoning)))))"

section \<open>Score service\<close>

record outfit_item =
  title :: string
  category :: string
  price :: real

record score_outfits_request =
  req_aesthetic :: string
  outfits :: "outfit_item list list"

text \<open>The comprehension \<open>[max(1.0, min(10.0, float(s))) for s in scores]\<close>.\<close>

fun bound_scores :: "(string \<Rightarrow> pyfloat option) \<Rightarrow> json list \<Rightarrow> exn + pyfloat list" where
  "bound_scores float_of_str [] = Inr []"
| "bound_scores float_of_str (s # ss) =
     (case py_float float_of_str s of
        Inl e \<Rightarrow> Inl e
      | Inr x \<Rightarrow>
          (case bound_scores float_of_str ss of
             Inl e \<Rightarrow> Inl e
           | Inr xs \<Rightarrow> Inr (py_max (Fin 1) (py_min (Fin 10) x) # xs)))"

text \<open>
  The try block of \<open>ScoreService.score_outfits\<close> after the completion call. The
  prompt sent upstream is built from the request without a failing step and only feeds
  the call, whose outcome is a parameter.
\<close>

definition read_scores ::
  "(string \<Rightarrow> pyfloat option) \<Rightarrow> nat \<Rightarrow> json \<Rightarrow> exn + pyfloat list" where
  "read_scores float_of_str num_outfits result =
     (case py_get result ''scores'' (JArr []) of
        Inl e \<Rightarrow> Inl e
      | Inr scores \<Rightarrow>
          (case py_len scores of
             Inl e \<Rightarrow> Inl e
           | Inr n \<Rightarrow>
               if n \<noteq> num_outfits then Inr (replicate num_outfits (Fin 5))
               else (case py_iter scores of
                       Inl e \<Rightarrow> Inl e
                     | Inr ss \<Rightarrow> bound_scores float_of_str ss)))"

text \<open>\<open>ScoreService.score_outfits\<close>: every exception gives the neutral scores.\<close>

definition score_outfits ::
  "(string \<Rightarrow> pyfloat option) \<Rightarrow> upstream \<Rightarrow> score_outfits_request \<Rightarrow> pyfloat list" where
  "score_outfits float_of_str up request =
     (case up of
        CallFailed \<Rightarrow> replicate (length (outfits request)) (Fin 5)
      | NotJson \<Rightarrow> replicate (length (outfits request)) (Fin 5)
      | Decoded result \<Rightarrow>
          (case read_scores float_of_str (length (outfits request)) result of
             Inl e \<Rightarrow> replicate (length (outfits request)) (Fin 5)
           | Inr bounded_scores \<Rightarrow> bounded_scores))"

section \<open>Parse service\<close>

text \<open>
  \<open>hashlib.md5(...).hexdigest()\<close> is a parameter \<open>md5\<close> of the key
  derivations; \<open>str.encode\<close> is the identity on the 8-bit strings of the model.
\<close>

text \<open>\<open>ParseService._generate_cache_key\<close>.\<close>

definition parse_generate_cache_key :: "(string \<Rightarrow> string) \<Rightarrow> string \<Rightarrow> string" where
  "parse_generate_cache_key md5 prompt =
     (let prompt_hash = md5 (strip (lower prompt)) in ''parse:'' @ prompt_hash)"

text \<open>\<open>x or dflt\<close> on an optional string: \<open>None\<close> and the empty string are falsy.\<close>

definition str_or :: "string option \<Rightarrow> string \<Rightarrow> string" where
  "str_or x dflt = (case x of None \<Rightarrow> dflt | Some v \<Rightarrow> if v = [] then dflt else v)"

text \<open>\<open>PlanService._generate_cache_key\<close>.\<close>

definition plan_generate_cache_key :: "(string \<Rightarrow> string) \<Rightarrow> parsed_prompt \<Rightarrow> string" where
  "plan_generate_cache_key md5 parsed_prompt =
     (let key_parts =
            [strip (lower (aesthetic parsed_prompt)),
             str_or (gender parsed_prompt) ''unisex'',
             join '','' (sort (categories parsed_prompt)),
             str_or (occasion parsed_prompt) []];
          key_string = join ''|'' key_parts;
          key_hash = md5 key_string
      in ''plan:'' @ key_hash)"

text \<open>
  The field constraints of the \<open>ParsedPrompt\<close> model, checked when an instance is
  constructed: \<open>budget\<close> is at least 0, \<open>size\<close>, \<open>gender\<close> and every category
  are one of the listed literals.
\<close>

definition size_literals :: "string list" where
  "size_literals = [''XS'', ''S'', ''M'', ''L'', ''XL'', ''XXL'']"

definition gender_literals :: "string list" where
  "gender_literals = [''male'', ''female'', ''unisex'']"

definition category_literals :: "string list" where
  "category_literals = [''top'', ''bottom'', ''shoes'', ''accessories'']"

definition valid_parsed_prompt :: "parsed_prompt \<Rightarrow> bool" where
  "valid_parsed_prompt p =
     ((case budget p of None \<Rightarrow> True | Some b \<Rightarrow> 0 \<le> b)
      \<and> (case size p of None \<Rightarrow> True | Some s \<Rightarrow> s \<in> set size_literals)
      \<and> (case gender p of None \<Rightarrow> True | Some g \<Rightarrow> g \<in> set gender_literals)
      \<and> list_all (\<lambda>c. c \<in> set category_literals) (categories p))"

definition ParsedPrompt :: "parsed_prompt \<Rightarrow> exn + parsed_prompt" where
  "ParsedPrompt p = (if valid_parsed_prompt p then Inr p else Inl ValidationError)"

text \<open>
  \<open>re.search(r'(\d+)', s)\<close> finds the leftmost, longest run of digits;
  \<open>int\<close> reads it in base 10 and raises ValueError when it has more than 4300
  digits, the interpreter's limit for the conversion of a string.
\<close>

definition first_digits :: "string \<Rightarrow> string" where
  "first_digits s = takeWhile is_digit (dropWhile (\<lambda>c. \<not> is_digit c) s)"

definition int_of_digits :: "string \<Rightarrow> int" where
  "int_of_digits ds = foldl (\<lambda>n c. 10 * n + (int (of_char c) - 48)) 0 ds"

definition py_int :: "string \<Rightarrow> exn + int" where
  "py_int ds = (if 4300 < length ds then Inl ValueError else Inr (int_of_digits ds))"

text \<open>The loop over the size tokens, left at the first match.\<close>

fun find_size :: "string \<Rightarrow> string list \<Rightarrow> string option" where
  "find_size prompt_lower [] = None"
| "find_size prompt_lower (s # ss) =
     (if contains ('' '' @ s @ '' '') ('' '' @ prompt_lower @ '' '')
         \<or> contains (''size '' @ s) prompt_lower
      then Some (upper s)
      else find_size prompt_lower ss)"

text \<open>\<open>ParseService._create_fallback_parse\<close>.\<close>

definition create_fallback_parse :: "string \<Rightarrow> exn + parsed_prompt" where
  "create_fallback_parse prompt =
     (let prompt_lower = lower prompt;
          budget_match = first_digits prompt_lower
      in case (if budget_match \<noteq> []
               then (case py_int budget_match of Inl e \<Rightarrow> Inl e | Inr b \<Rightarrow> Inr (Some b))
               else Inr None) of
           Inl e \<Rightarrow> Inl e
         | Inr b \<Rightarrow>
             (let budget = b;
                  size = find_size prompt_lower [''xs'', ''s'', ''m'', ''l'', ''xl'', ''xxl''];
                  gender =
                    (if contains ''men'' prompt_lower \<or> contains ''male'' prompt_lower
                     then ''male''
                     else if contains ''women'' prompt_lower \<or> contains ''female'' prompt_lower
                     then ''female''
                     else ''unisex'');
                  categories = [''top'', ''bottom''];
                  categories = (if contains ''shoe'' prompt_lower then categories @ [''shoes'']
                                else categories);
                  categories = (if contains ''accessor'' prompt_lower
                                then categories @ [''accessories''] else categories)
              in ParsedPrompt
                   \<lparr>aesthetic = prompt, budget = budget, size = size, gender = Some gender,
                    occasion = None, categories = categories\<rparr>))"

text \<open>
  \<open>ParseService.parse_prompt\<close>. \<open>cached\<close> is what \<open>_get_cached\<close> returned for
  the prompt's key, \<open>model\<close> the construction of a \<open>ParsedPrompt\<close> from the decoded
  object. The result is the returned pair together with the value written to the
  cache, if any.
\<close>

definition parse_prompt ::
  "parsed_prompt option \<Rightarrow> (json \<Rightarrow> exn + parsed_prompt) \<Rightarrow> upstream \<Rightarrow> string
     \<Rightarrow> exn + ((parsed_prompt \<times> bool) \<times> parsed_prompt option)" where
  "parse_prompt cached model up prompt =
     (let fallback = (case create_fallback_parse prompt of
                        Inl e \<Rightarrow> Inl e
                      | Inr p \<Rightarrow> Inr ((p, False), None))
      in case cached of
           Some c \<Rightarrow> Inr ((c, True), None)
         | None \<Rightarrow>
             (case up of
                CallFailed \<Rightarrow> fallback
              | NotJson \<Rightarrow> fallback
              | Decoded parsed_data \<Rightarrow>
                  (case model parsed_data of
                     Inl e \<Rightarrow> fallback
                   | Inr parsed \<Rightarrow> Inr ((parsed, False), Some parsed))))"

section \<open>Retry with exponential backoff\<close>

text \<open>
  A retry policy. Its delays and its multiplier are finite floats, its retry count a
  Python \<open>int\<close>.
\<close>

record retry_config =
  max_retries :: int
  initial_delay :: real
  max_delay :: real
  backoff_multiplier :: real
  jitter_enabled :: bool










definition EXTERNAL_API :: retry_config where
  "EXTERNAL_API = \<lparr>max_retries = 2, initial_delay = 0.5, max_delay = 5, backoff_multiplier = 2,
                   jitter_enabled = True\<rparr>"


section \<open>Similarity service\<close>

record similarity_search_request =
  req_text :: "string option"
  req_image_url :: "string option"
  req_embedding :: "real list option"
  req_category :: "string option"
  req_min_price :: "real option"
  req_max_price :: "real option"
  req_limit :: int

record product_similarity =
  ps_id :: string
  ps_title :: string
  ps_price :: real
  ps_image_url :: string
  ps_similarity :: real

text \<open>A row of the result set; a column that is NULL arrives as \<open>None\<close>.\<close>

record product_row =
  row_id :: string
  row_title :: "string option"
  row_price :: "real option"
  row_image_url :: "string option"
  row_similarity :: "real option"

text \<open>
  A bound parameter of the query: \<open>PEmb v\<close> is \<open>str(v)\<close>, the embedding printed as
  text.
\<close>

datatype sql_param = PEmb "real list" | PStr string | PReal real | PInt int

text \<open>
  The collaborators of a search: the two encoders of the CLIP service, the connection
  to the store (\<open>Some e\<close> when \<open>connect\<close> raises \<open>e\<close>) and the execution of a query
  with \<open>fetchall\<close>, given the \<open>WHERE\<close> clause and the parameters.
\<close>

record search_collaborators =
  encode_image :: "string \<Rightarrow> exn + real list"
  encode_text :: "string \<Rightarrow> exn + real list"
  connect :: "exn option"
  execute :: "string \<Rightarrow> sql_param list \<Rightarrow> exn + product_row list"

text \<open>
  The construction \<open>ProductSimilarity(id=str(r[0]), title=r[1], price=float(r[2]),
  image_url=r[3], similarity=float(r[4]))\<close>: \<open>float(None)\<close> raises TypeError, a
  missing string fails the validation of the model.
\<close>

definition to_product_similarity :: "product_row \<Rightarrow> exn + product_similarity" where
  "to_product_similarity r =
     (case row_price r of
        None \<Rightarrow> Inl TypeError
      | Some p \<Rightarrow>
          (case row_similarity r of
             None \<Rightarrow> Inl TypeError
           | Some s \<Rightarrow>
               (case (row_title r, row_image_url r) of
                  (Some t, Some u) \<Rightarrow>
                    Inr \<lparr>ps_id = row_id r, ps_title = t, ps_price = p, ps_image_url = u,
                         ps_similarity = s\<rparr>
                | _ \<Rightarrow> Inl ValidationError)))"

fun to_products :: "product_row list \<Rightarrow> exn + product_similarity list" where
  "to_products [] = Inr []"
| "to_products (r # rs) =
     (case to_product_similarity r of
        Inl e \<Rightarrow> Inl e
      | Inr p \<Rightarrow> (case to_products rs of Inl e \<Rightarrow> Inl e | Inr ps \<Rightarrow> Inr (p # ps)))"

text \<open>
  An optional string or list that is truthy: neither \<open>None\<close> nor empty.
\<close>

definition truthy :: "'a list option \<Rightarrow> 'a list option" where
  "truthy x = (case x of Some (a # as) \<Rightarrow> Some (a # as) | _ \<Rightarrow> None)"

text \<open>Step 1 of \<open>search_similar\<close>: the embedding to search for.\<close>

definition target_embedding :: "search_collaborators \<Rightarrow> similarity_search_request \<Rightarrow> exn + real list" where
  "target_embedding clip request =
     (case truthy (req_embedding request) of
        Some emb \<Rightarrow> Inr emb
      | None \<Rightarrow>
          (case truthy (req_image_url request) of
             Some url \<Rightarrow> encode_image clip url
           | None \<Rightarrow>
               (case truthy (req_text request) of
                  Some t \<Rightarrow> encode_text clip t
                | None \<Rightarrow> Inl ValueError)))"

text \<open>The filters and parameters built inside the try block.\<close>

definition build_filters :: "similarity_search_request \<Rightarrow> string list \<times> sql_param list" where
  "build_filters request =
     (let filters = []; params = [];
          (filters, params) =
            (case truthy (req_category request) of
               Some c \<Rightarrow> (filters @ [''category = %s''], params @ [PStr c])
             | None \<Rightarrow> (filters, params));
          (filters, params) =
            (case req_min_price request of
               Some p \<Rightarrow> (filters @ [''price >= %s''], params @ [PReal p])
             | None \<Rightarrow> (filters, params));
          (filters, params) =
            (case req_max_price request of
               Some p \<Rightarrow> (filters @ [''price <= %s''], params @ [PReal p])
             | None \<Rightarrow> (filters, params))
      in (filters, params))"

text \<open>The try block of \<open>search_similar\<close>.\<close>

definition run_query ::
  "search_collaborators \<Rightarrow> similarity_search_request \<Rightarrow> real list \<Rightarrow> exn + product_similarity list" where
  "run_query db request emb =
     (let (filters, more) = build_filters request;
          params = [PEmb emb] @ more;
          where_clause = (if filters \<noteq> [] then ''WHERE '' @ join '' AND '' filters else []);
          params = params @ [PEmb emb, PInt (req_limit request)]
      in case execute db where_clause params of
           Inl e \<Rightarrow> Inl e
         | Inr results \<Rightarrow> to_products results)"

text \<open>
  \<open>SimilarityService.search_similar\<close>: the embedding and the connection are
  obtained outside the try block; an exception inside it is logged and answered with
  the empty list.
\<close>

definition search_similar ::
  "search_collaborators \<Rightarrow> similarity_search_request \<Rightarrow> exn + product_similarity list" where
  "search_similar env request =
     (case target_embedding env request of
        Inl e \<Rightarrow> Inl e
      | Inr emb \<Rightarrow>
          (case connect env of
             Some e \<Rightarrow> Inl e
           | None \<Rightarrow>
               (case run_query env request emb of
                  Inl e \<Rightarrow> Inr []
                | Inr products \<Rightarrow> Inr products)))"

text \<open>A store whose connection works and whose query fails, and a search by embedding.\<close>

definition store_query_fails :: search_collaborators where
  "store_query_fails =
     \<lparr>encode_image = (\<lambda>url. Inr [1, 0]), encode_text = (\<lambda>t. Inr [1, 0]), connect = None,
      execute = (\<lambda>w ps. Inl (UpstreamError ''server closed the connection''))\<rparr>"

definition search_by_embedding :: similarity_search_request where
  "search_by_embedding =
     \<lparr>req_text = None, req_image_url = None, req_embedding = Some [1, 0],
      req_category = Some ''top'', req_min_price = None, req_max_price = None, req_limit = 10\<rparr>"

text \<open>
  The loops of \<open>calculate_coherence\<close> over the pairs \<open>i < j\<close>, appending to
  \<open>similarities\<close>; an exception of \<open>np.dot\<close> leaves them.
\<close>

fun inner_loop :: "pyfloat list list \<Rightarrow> nat \<Rightarrow> nat list \<Rightarrow> pyfloat list \<Rightarrow> exn + pyfloat list" where
  "inner_loop embs i [] similarities = Inr similarities"
| "inner_loop embs i (j # js) similarities =
     (case np_dot (embs ! i) (embs ! j) of
        Inl e \<Rightarrow> Inl e
      | Inr sim \<Rightarrow> inner_loop embs i js (similarities @ [sim]))"

fun outer_loop :: "pyfloat list list \<Rightarrow> nat list \<Rightarrow> pyfloat list \<Rightarrow> exn + pyfloat list" where
  "outer_loop embs [] similarities = Inr similarities"
| "outer_loop embs (i # is) similarities =
     (case inner_loop embs i [i + 1..<length embs] similarities of
        Inl e \<Rightarrow> Inl e
      | Inr similarities' \<Rightarrow> outer_loop embs is similarities')"

text \<open>The try block of \<open>calculate_coherence\<close>.\<close>

definition coherence_body :: "pyfloat list list \<Rightarrow> exn + pyfloat" where
  "coherence_body embeddings =
     (let embs = map (\<lambda>e. map (\<lambda>x. fl_div x (np_norm e)) e) embeddings
      in case outer_loop embs [0..<length embs] [] of
           Inl e \<Rightarrow> Inl e
         | Inr similarities \<Rightarrow>
             (let avg_sim = fl_div (fl_sum similarities) (Fin (real (length similarities)));
                  avg_sim = (if fl_lt avg_sim (Fin 0.6)
                             then fl_mul avg_sim (fl_div avg_sim (Fin 0.6)) else avg_sim)
              in Inr (py_max (Fin 0) (py_min (Fin 1) avg_sim))))"

text \<open>
  \<open>SimilarityService.calculate_coherence\<close>. The result is \<open>Inr\<close> of the float
  returned; \<open>Inl\<close> would be an exception leaving the function.
\<close>

definition calculate_coherence :: "pyfloat list list \<Rightarrow> exn + pyfloat" where
  "calculate_coherence embeddings =
     (if length embeddings < 2 then Inr (Fin 1)
      else case coherence_body embeddings of
             Inl e \<Rightarrow> Inr (Fin 0.5)
           | Inr score \<Rightarrow> Inr score)"

text \<open>
  The coherence of the specification, on real vectors: 1 for fewer than two vectors;
  otherwise the mean, over the \<open>n (n - 1) / 2\<close> pairs \<open>i < j\<close>, of the dot products
  of the vectors scaled to unit length (\<open>mean_similarity\<close>), multiplied by itself over
  0.6 when it is below 0.6, and clamped to the interval from 0 to 1.
\<close>

definition l2norm :: "real list \<Rightarrow> real" where
  "l2norm v = sqrt (\<Sum>x\<leftarrow>v. x\<^sup>2)"

definition unit_vector :: "real list \<Rightarrow> real list" where
  "unit_vector v = map (\<lambda>x. x / l2norm v) v"

definition dot :: "real list \<Rightarrow> real list \<Rightarrow> real" where
  "dot u v = sum_list (map2 (*) u v)"

definition mean_similarity :: "real list list \<Rightarrow> real" where
  "mean_similarity es =
     (let n = length es
      in (\<Sum>i<n. \<Sum>j\<in>{i + 1..<n}. dot (unit_vector (es ! i)) (unit_vector (es ! j)))
           / (real (n * (n - 1)) / 2))"

definition coherence_spec :: "real list list \<Rightarrow> real" where
  "coherence_spec es =
     (if length es < 2 then 1
      else let mean = mean_similarity es;
               adjusted = (if mean < 0.6 then mean * (mean / 0.6) else mean)
           in max 0 (min 1 adjusted))"



section \<open>Aesthetic service\<close>

text \<open>
  The two sequence types that meet in \<open>find_nearest_aesthetic\<close>: the Python list
  that \<open>CLIPService.encode_text\<close> returns (it ends in \<open>.tolist()\<close>) and the numpy
  array.
\<close>

datatype pyseq = PyList "pyfloat list" | NdArray "pyfloat list"

text \<open>
  \<open>CLIPService.encode_text\<close>: the features of the model, divided by their norm
  and returned as a list. \<open>model\<close> gives the features of a text, or the exception of
  loading or running the model.
\<close>

definition clip_encode_text :: "(string \<Rightarrow> exn + pyfloat list) \<Rightarrow> string \<Rightarrow> exn + pyseq" where
  "clip_encode_text model t =
     (case model t of
        Inl e \<Rightarrow> Inl e
      | Inr text_features \<Rightarrow>
          Inr (PyList (map (\<lambda>x. fl_div x (np_norm text_features)) text_features)))"

text \<open>Iteration over a sequence, and \<open>np.array\<close> of one.\<close>

fun seq_items :: "pyseq \<Rightarrow> pyfloat list" where
  "seq_items (PyList xs) = xs"
| "seq_items (NdArray xs) = xs"

text \<open>
  \<open>x / d\<close> for a float \<open>d\<close>: elementwise on an array; a list has no division and
  the interpreter raises TypeError.
\<close>

fun py_truediv :: "pyseq \<Rightarrow> pyfloat \<Rightarrow> exn + pyseq" where
  "py_truediv (NdArray xs) d = Inr (NdArray (map (\<lambda>x. fl_div x d) xs))"
| "py_truediv (PyList xs) d = Inl TypeError"

text \<open>The loop over \<open>aesthetics.items()\<close>, keeping the first strictly best name.\<close>

fun best_loop ::
  "pyfloat list \<Rightarrow> (string \<times> pyfloat list) list \<Rightarrow> string option \<Rightarrow> pyfloat \<Rightarrow> exn + string option" where
  "best_loop p_v [] best_aesthetic max_sim = Inr best_aesthetic"
| "best_loop p_v ((name, vector) # rest) best_aesthetic max_sim =
     (case np_dot p_v vector of
        Inl e \<Rightarrow> Inl e
      | Inr sim \<Rightarrow>
          if fl_lt max_sim sim then best_loop p_v rest (Some name) sim
          else best_loop p_v rest best_aesthetic max_sim)"

text \<open>The try block of \<open>find_nearest_aesthetic\<close>.\<close>

definition nearest_body ::
  "(string \<Rightarrow> exn + pyfloat list) \<Rightarrow> (string \<times> pyfloat list) list \<Rightarrow> string \<Rightarrow> exn + string option" where
  "nearest_body model aesthetics prompt =
     (case clip_encode_text model prompt of
        Inl e \<Rightarrow> Inl e
      | Inr prompt_emb \<Rightarrow>
          (case py_truediv prompt_emb
                  (fl_sqrt (fl_sum (map (\<lambda>x. fl_mul x x) (seq_items prompt_emb)))) of
             Inl e \<Rightarrow> Inl e
           | Inr prompt_emb \<Rightarrow>
               if aesthetics = [] then Inr None
               else best_loop (seq_items prompt_emb) aesthetics None (Fin (- 1))))"

text \<open>
  \<open>AestheticService.find_nearest_aesthetic\<close>; \<open>aesthetics\<close> are the items of the
  dict that \<open>get_all_aesthetics\<close> returned. Every exception gives \<open>None\<close>.
\<close>

definition find_nearest_aesthetic ::
  "(string \<Rightarrow> exn + pyfloat list) \<Rightarrow> (string \<times> pyfloat list) list \<Rightarrow> string \<Rightarrow> string option" where
  "find_nearest_aesthetic model aesthetics prompt =
     (case nearest_body model aesthetics prompt of Inl e \<Rightarrow> None | Inr best \<Rightarrow> best)"

section \<open>Floats within range\<close>

text \<open>The equations that evaluate an operation on numerals.\<close>

lemmas float_eval = fl_round_def overflow_threshold_def underflow_threshold_def inf_of_sign_def

lemma overflow_threshold_gt: "2 ^ 1000 < overflow_threshold"
  by (simp add: overflow_threshold_def)

lemma overflow_threshold_pos: "0 < overflow_threshold"
  by (simp add: overflow_threshold_def)

lemma underflow_threshold_lt: "underflow_threshold < 1 / 2 ^ 1070"
  by (simp add: underflow_threshold_def)

lemma underflow_threshold_pos: "0 < underflow_threshold"
  by (simp add: underflow_threshold_def)

lemma fl_round_exact:
  assumes "r = 0 \<or> (1 / 2 ^ 1070 \<le> \<bar>r\<bar> \<and> \<bar>r\<bar> \<le> 2 ^ 1000)"
  shows "fl_round r = Fin r"
  using assms overflow_threshold_gt overflow_threshold_pos underflow_threshold_lt
    underflow_threshold_pos
  by (auto simp: fl_round_def)


lemma fl_round_zero: "fl_round 0 = Fin 0"
  by (rule fl_round_exact) simp




lemma py_min_Fin: "py_min (Fin a) (Fin b) = Fin (min a b)"
  by (simp add: py_min_def min_def)

lemma py_max_Fin: "py_max (Fin a) (Fin b) = Fin (max a b)"
  by (simp add: py_max_def max_def)


section \<open>Plan validation\<close>

lemma fallback_plan_length:
  "2 \<le> length (fst (create_fallback_plan p)) \<and> length (fst (create_fallback_plan p)) \<le> 4"
  by (simp add: create_fallback_plan_def Let_def)

lemma read_plan_bad_count:
  assumes "py_getitem plan_data ''items'' = Inr items" and "py_len items = Inr n"
    and "n < 2 \<or> 4 < n"
  shows "read_plan plan_data = Inl AttributeError \<or> read_plan plan_data = Inr None"
  using assms by (cases plan_data) (auto simp: read_plan_def split: option.splits)

lemma plan_outfit_bad_count:
  assumes "py_getitem plan_data ''items'' = Inr items" and "py_len items = Inr n"
    and "n < 2 \<or> 4 < n"
  shows "plan_outfit None (Decoded plan_data) q = (fallback_result q, None)"
  using read_plan_bad_count [OF assms] by (auto simp: plan_outfit_def)

text \<open>
  Claim C6. On a cache miss, an upstream plan whose \<open>items\<close> value has a length
  outside 2..4 is dropped: \<open>plan_outfit\<close> returns the fallback plan and caches
  nothing. The fallback plan has between 2 and 4 items for every parsed prompt.
\<close>

theorem plan_validation:
  "(py_getitem plan_data ''items'' = Inr items \<and> py_len items = Inr n \<and> (n < 2 \<or> 4 < n)
      \<longrightarrow> plan_outfit None (Decoded plan_data) q = (fallback_result q, None))
   \<and> 2 \<le> length (fst (create_fallback_plan p))
   \<and> length (fst (create_fallback_plan p)) \<le> 4
   \<and> fst (fallback_result p) = JArr (map JStr (fst (create_fallback_plan p)))"
  using plan_outfit_bad_count [of plan_data items n q] fallback_plan_length [of p]
  by (auto simp: fallback_result_def split: prod.splits)

theorem plan_validation_witness:
  "plan_outfit None (Decoded (JObj [(''items'', JArr [JStr ''dress''])]))
      \<lparr>aesthetic = ''Vintage'', budget = None, size = None, gender = None, occasion = None,
       categories = [''top'', ''shoes'']\<rparr>
    = ((JArr [JStr ''vintage blouse'', JStr ''high-waisted skirt'', JStr ''casual shoes''],
        JStr ''Vintage style with classic silhouettes'', False), None)"
proof -
  let ?d = "JObj [(''items'', JArr [JStr ''dress''])]"
  let ?q = "\<lparr>aesthetic = ''Vintage'', budget = None, size = None, gender = None,
             occasion = None, categories = [''top'', ''shoes'']\<rparr>"
  have g: "py_getitem ?d ''items'' = Inr (JArr [JStr ''dress''])"
    by (simp add: dict_get_def)
  have l: "py_len (JArr [JStr ''dress'']) = Inr 1" by simp
  have "plan_outfit None (Decoded ?d) ?q = (fallback_result ?q, None)"
    using plan_validation [of ?d "JArr [JStr ''dress'']" 1 ?q] g l by simp
  moreover have "fallback_result ?q =
      (JArr [JStr ''vintage blouse'', JStr ''high-waisted skirt'', JStr ''casual shoes''],
       JStr ''Vintage style with classic silhouettes'', False)"
    by code_simp
  ultimately show ?thesis by simp
qed

section \<open>Scoring\<close>

lemma clamp_score_range: "\<exists>r. py_max (Fin 1) (py_min (Fin 10) x) = Fin r \<and> 1 \<le> r \<and> r \<le> 10"
  by (cases x) (auto simp: py_max_def py_min_def)

lemma bound_scores_ok:
  "bound_scores f ss = Inr xs \<Longrightarrow>
     length xs = length ss \<and> (\<forall>x \<in> set xs. \<exists>r. x = Fin r \<and> 1 \<le> r \<and> r \<le> 10)"
proof (induction ss arbitrary: xs)
  case Nil
  then show ?case by simp
next
  case (Cons s ss)
  from Cons.prems obtain x ys where x: "py_float f s = Inr x"
    and ys: "bound_scores f ss = Inr ys"
    and xs: "xs = py_max (Fin 1) (py_min (Fin 10) x) # ys"
    by (auto split: sum.splits)
  from Cons.IH [OF ys] clamp_score_range [of x] xs show ?case by auto
qed

lemma py_iter_length: "py_iter j = Inr ss \<Longrightarrow> py_len j = Inr (length ss)"
  by (cases j) auto

lemma read_scores_ok:
  assumes "read_scores f n result = Inr xs"
  shows "length xs = n \<and> (\<forall>x \<in> set xs. \<exists>r. x = Fin r \<and> 1 \<le> r \<and> r \<le> 10)"
proof -
  from assms obtain scores m where g: "py_get result ''scores'' (JArr []) = Inr scores"
    and m: "py_len scores = Inr m"
    by (auto simp: read_scores_def split: sum.splits)
  show ?thesis
  proof (cases "m = n")
    case False
    with assms g m have "xs = replicate n (Fin 5)" by (simp add: read_scores_def)
    then show ?thesis by auto
  next
    case True
    with assms g m obtain ss where it: "py_iter scores = Inr ss"
      and b: "bound_scores f ss = Inr xs"
      by (auto simp: read_scores_def split: sum.splits)
    from py_iter_length [OF it] m True have "length ss = n" by simp
    with bound_scores_ok [OF b] show ?thesis by simp
  qed
qed

lemma score_outfits_ok:
  "length (score_outfits f up request) = length (outfits request) \<and>
   (\<forall>x \<in> set (score_outfits f up request). \<exists>r. x = Fin r \<and> 1 \<le> r \<and> r \<le> 10)"
proof (cases up)
  case (Decoded result)
  show ?thesis
  proof (cases "read_scores f (length (outfits request)) result")
    case (Inl e)
    with Decoded show ?thesis by (auto simp: score_outfits_def)
  next
    case (Inr xs)
    from read_scores_ok [OF Inr] Decoded Inr show ?thesis by (simp add: score_outfits_def)
  qed
qed (auto simp: score_outfits_def)

lemma score_outfits_wrong_length:
  assumes "py_get result ''scores'' (JArr []) = Inr scores" and "py_len scores = Inr n"
    and "n \<noteq> length (outfits request)"
  shows "score_outfits f (Decoded result) request = replicate (length (outfits request)) (Fin 5)"
  using assms by (simp add: score_outfits_def read_scores_def)

lemma bound_scores_map:
  "list_all2 (\<lambda>s x. py_float f s = Inr x) ss xs
     \<Longrightarrow> bound_scores f ss = Inr (map (\<lambda>x. py_max (Fin 1) (py_min (Fin 10) x)) xs)"
  by (induction ss xs rule: list_all2_induct) simp_all

lemma bound_scores_converts:
  "bound_scores f ss = Inr xs \<Longrightarrow> s \<in> set ss \<Longrightarrow> \<exists>x. py_float f s = Inr x"
  by (induction ss arbitrary: xs) (auto split: sum.splits)

lemma bound_scores_fails:
  assumes "\<exists>s \<in> set ss. \<exists>e. py_float f s = Inl e"
  shows "\<exists>e. bound_scores f ss = Inl e"
proof (cases "bound_scores f ss")
  case (Inl e)
  then show ?thesis by blast
next
  case (Inr xs)
  from assms obtain s e where "s \<in> set ss" "py_float f s = Inl e" by blast
  with bound_scores_converts [OF Inr, of s] show ?thesis by simp
qed

lemma score_outfits_clamps:
  assumes "py_get result ''scores'' (JArr []) = Inr scores" and "py_iter scores = Inr ss"
    and "length ss = length (outfits request)"
    and "list_all2 (\<lambda>s x. py_float f s = Inr x) ss xs"
  shows "score_outfits f (Decoded result) request
           = map (\<lambda>x. py_max (Fin 1) (py_min (Fin 10) x)) xs"
  using assms py_iter_length [OF assms(2)] bound_scores_map [OF assms(4)]
  by (simp add: score_outfits_def read_scores_def)

lemma score_outfits_unreadable:
  assumes "py_get result ''scores'' (JArr []) = Inr scores" and "py_iter scores = Inr ss"
    and "\<exists>s \<in> set ss. \<exists>e. py_float f s = Inl e"
  shows "score_outfits f (Decoded result) request = replicate (length (outfits request)) (Fin 5)"
proof -
  from bound_scores_fails [OF assms(3)] obtain e where "bound_scores f ss = Inl e" by blast
  with assms(1,2) py_iter_length [OF assms(2)] show ?thesis
    by (simp add: score_outfits_def read_scores_def)
qed

lemma clamp_score_Fin: "py_max (Fin 1) (py_min (Fin 10) (Fin r)) = Fin (max 1 (min 10 r))"
  by (simp add: py_min_Fin py_max_Fin min.commute)

text \<open>
  Claim C9. For a request with N outfits \<open>score_outfits\<close> returns N scores, each a
  finite number between 1 and 10. When the reply holds N scores that \<open>float\<close>
  converts, the result is these N floats, each clamped: a number from 1 to 10 is
  returned as it is, a smaller one as 1, a larger one as 10. When the completion call
  fails, its content is not JSON, the decoded \<open>scores\<close> value has a length other than
  N, or one of the N scores is not converted, the result is N copies of 5.
\<close>

theorem score_outfits_total:
  "length (score_outfits f up request) = length (outfits request)
   \<and> (\<forall>x \<in> set (score_outfits f up request). \<exists>r. x = Fin r \<and> 1 \<le> r \<and> r \<le> 10)
   \<and> (up = CallFailed \<or> up = NotJson
        \<longrightarrow> score_outfits f up request = replicate (length (outfits request)) (Fin 5))
   \<and> (up = Decoded result \<and> py_get result ''scores'' (JArr []) = Inr scores
          \<and> py_len scores = Inr n \<and> n \<noteq> length (outfits request)
        \<longrightarrow> score_outfits f up request = replicate (length (outfits request)) (Fin 5))
   \<and> (up = Decoded result \<and> py_get result ''scores'' (JArr []) = Inr scores
          \<and> py_iter scores = Inr ss \<and> length ss = length (outfits request)
          \<and> list_all2 (\<lambda>s x. py_float f s = Inr x) ss xs
        \<longrightarrow> score_outfits f up request = map (\<lambda>x. py_max (Fin 1) (py_min (Fin 10) x)) xs)
   \<and> (up = Decoded (JObj [(''scores'', JArr (map (\<lambda>r. JNum (Fin r)) rs))])
          \<and> length rs = length (outfits request)
        \<longrightarrow> score_outfits f up request = map (\<lambda>r. Fin (max 1 (min 10 r))) rs)
   \<and> (up = Decoded result \<and> py_get result ''scores'' (JArr []) = Inr scores
          \<and> py_iter scores = Inr ss \<and> (\<exists>s \<in> set ss. \<exists>e. py_float f s = Inl e)
        \<longrightarrow> score_outfits f up request = replicate (length (outfits request)) (Fin 5))"
proof -
  have 1: "length (score_outfits f up request) = length (outfits request)
     \<and> (\<forall>x \<in> set (score_outfits f up request). \<exists>r. x = Fin r \<and> 1 \<le> r \<and> r \<le> 10)"
    by (rule score_outfits_ok)
  have 2: "up = CallFailed \<or> up = NotJson
        \<longrightarrow> score_outfits f up request = replicate (length (outfits request)) (Fin 5)"
    by (auto simp: score_outfits_def)
  have 3: "up = Decoded result \<and> py_get result ''scores'' (JArr []) = Inr scores
          \<and> py_len scores = Inr n \<and> n \<noteq> length (outfits request)
        \<longrightarrow> score_outfits f up request = replicate (length (outfits request)) (Fin 5)"
    using score_outfits_wrong_length [of result scores n request f] by blast
  have 4: "up = Decoded result \<and> py_get result ''scores'' (JArr []) = Inr scores
          \<and> py_iter scores = Inr ss \<and> length ss = length (outfits request)
          \<and> list_all2 (\<lambda>s x. py_float f s = Inr x) ss xs
        \<longrightarrow> score_outfits f up request = map (\<lambda>x. py_max (Fin 1) (py_min (Fin 10) x)) xs"
    using score_outfits_clamps [of result scores ss request f xs] by blast
  have 5: "up = Decoded (JObj [(''scores'', JArr (map (\<lambda>r. JNum (Fin r)) rs))])
          \<and> length rs = length (outfits request)
        \<longrightarrow> score_outfits f up request = map (\<lambda>r. Fin (max 1 (min 10 r))) rs"
  proof
    let ?res = "JObj [(''scores'', JArr (map (\<lambda>r. JNum (Fin r)) rs))]"
    let ?ss = "map (\<lambda>r. JNum (Fin r)) rs"
    assume a: "up = Decoded ?res \<and> length rs = length (outfits request)"
    have g: "py_get ?res ''scores'' (JArr []) = Inr (JArr ?ss)" by (simp add: dict_get_def)
    have i: "py_iter (JArr ?ss) = Inr ?ss" by simp
    have l: "list_all2 (\<lambda>s x. py_float f s = Inr x) ?ss (map Fin rs)"
      by (simp add: list_all2_conv_all_nth)
    have "score_outfits f (Decoded ?res) request
            = map (\<lambda>x. py_max (Fin 1) (py_min (Fin 10) x)) (map Fin rs)"
      using g i _ l by (rule score_outfits_clamps) (use a in simp)
    with a show "score_outfits f up request = map (\<lambda>r. Fin (max 1 (min 10 r))) rs"
      by (simp add: clamp_score_Fin comp_def)
  qed
  have 6: "up = Decoded result \<and> py_get result ''scores'' (JArr []) = Inr scores
          \<and> py_iter scores = Inr ss \<and> (\<exists>s \<in> set ss. \<exists>e. py_float f s = Inl e)
        \<longrightarrow> score_outfits f up request = replicate (length (outfits request)) (Fin 5)"
    using score_outfits_unreadable [of result scores ss f request] by blast
  from 1 2 3 4 5 6 show ?thesis by (intro conjI) blast+
qed

theorem score_outfits_total_witness:
  "score_outfits (\<lambda>s. None) (Decoded (JObj [(''scores'', JArr [JNum (Fin 7), JNum (Fin 12)])]))
      \<lparr>req_aesthetic = ''streetwear'', outfits = [[], []]\<rparr> = [Fin 7, Fin 10]
   \<and> score_outfits (\<lambda>s. None)
        (Decoded (JObj [(''scores'', JArr [JInt (- 3), JNum NaN, JBool True, JNum (Fin 2.5)])]))
      \<lparr>req_aesthetic = ''streetwear'', outfits = [[], [], [], []]\<rparr>
       = [Fin 1, Fin 10, Fin 1, Fin 2.5]
   \<and> score_outfits (\<lambda>s. None) (Decoded (JObj [(''scores'', JArr [JNum (Fin 7)])]))
      \<lparr>req_aesthetic = ''streetwear'', outfits = [[], []]\<rparr> = [Fin 5, Fin 5]
   \<and> score_outfits (\<lambda>s. None) (Decoded (JObj [(''scores'', JArr [JNum (Fin 7), JNull])]))
      \<lparr>req_aesthetic = ''streetwear'', outfits = [[], []]\<rparr> = [Fin 5, Fin 5]
   \<and> score_outfits (\<lambda>s. None) CallFailed
      \<lparr>req_aesthetic = ''streetwear'', outfits = [[], []]\<rparr> = [Fin 5, Fin 5]
   \<and> length (score_outfits (\<lambda>s. None) NotJson
        \<lparr>req_aesthetic = ''streetwear'', outfits = [[], []]\<rparr>) = 2"
proof -
  let ?f = "\<lambda>s :: string. None :: pyfloat option"
  let ?rq = "\<lparr>req_aesthetic = ''streetwear'', outfits = [[], []]\<rparr>"
  let ?rq4 = "\<lparr>req_aesthetic = ''streetwear'', outfits = [[], [], [], []]\<rparr>"
  let ?d = "JObj [(''scores'', JArr [JNum (Fin 7)])]"
  let ?m = "JObj [(''scores'', JArr [JInt (- 3), JNum NaN, JBool True, JNum (Fin 2.5)])]"
  let ?u = "JObj [(''scores'', JArr [JNum (Fin 7), JNull])]"
  have a: "score_outfits ?f (Decoded (JObj [(''scores'', JArr [JNum (Fin 7), JNum (Fin 12)])])) ?rq
             = [Fin 7, Fin 10]"
    using score_outfits_total [where f = ?f and request = ?rq and rs = "[7, 12]"
        and up = "Decoded (JObj [(''scores'', JArr [JNum (Fin 7), JNum (Fin 12)])])"]
    by simp
  have o: "\<not> overflow_threshold \<le> 3" using overflow_threshold_gt by simp
  have lm: "list_all2 (\<lambda>s x. py_float ?f s = Inr x)
              [JInt (- 3), JNum NaN, JBool True, JNum (Fin 2.5)] [Fin (- 3), NaN, Fin 1, Fin 2.5]"
    using o by simp
  have b: "score_outfits ?f (Decoded ?m) ?rq4 = [Fin 1, Fin 10, Fin 1, Fin 2.5]"
    using score_outfits_total [where f = ?f and request = ?rq4 and up = "Decoded ?m"
        and result = ?m and scores = "JArr [JInt (- 3), JNum NaN, JBool True, JNum (Fin 2.5)]"
        and ss = "[JInt (- 3), JNum NaN, JBool True, JNum (Fin 2.5)]"
        and xs = "[Fin (- 3), NaN, Fin 1, Fin 2.5]"] lm
    by (simp add: dict_get_def py_min_def py_max_def)
  have c: "score_outfits ?f (Decoded ?d) ?rq = [Fin 5, Fin 5]"
    using score_outfits_total [where f = ?f and request = ?rq and up = "Decoded ?d"
        and result = ?d and scores = "JArr [JNum (Fin 7)]" and n = 1]
    by (simp add: dict_get_def numeral_2_eq_2)
  have d: "score_outfits ?f (Decoded ?u) ?rq = [Fin 5, Fin 5]"
    using score_outfits_total [where f = ?f and request = ?rq and up = "Decoded ?u"
        and result = ?u and scores = "JArr [JNum (Fin 7), JNull]"
        and ss = "[JNum (Fin 7), JNull]"]
    by (simp add: dict_get_def numeral_2_eq_2)
  have e: "score_outfits ?f CallFailed ?rq = [Fin 5, Fin 5]"
    using score_outfits_total [where f = ?f and request = ?rq and up = CallFailed]
    by (simp add: numeral_2_eq_2)
  have g: "length (score_outfits ?f NotJson ?rq) = 2"
    using score_outfits_total [where f = ?f and request = ?rq and up = NotJson]
    by simp
  from a b c d e g show ?thesis by blast
qed

section \<open>Fallback prompt extraction\<close>

lemma is_digit_lower_char: "is_digit (lower_char c) = is_digit c"
  by (simp add: is_digit_def lower_char_def less_eq_char_def)

lemma lower_char_digit: "is_digit c \<Longrightarrow> lower_char c = c"
  by (auto simp: is_digit_def lower_char_def less_eq_char_def)

lemma lower_digits: "\<forall>c \<in> set ds. is_digit c \<Longrightarrow> lower ds = ds"
  by (induction ds) (simp_all add: lower_def lower_char_digit)

lemma first_digits_run:
  assumes "\<forall>c \<in> set pre. \<not> is_digit c" and "ds \<noteq> []" and "\<forall>c \<in> set ds. is_digit c"
    and "post = [] \<or> \<not> is_digit (hd post)"
  shows "first_digits (pre @ ds @ post) = ds"
proof -
  from assms(2) obtain d ds' where ds: "ds = d # ds'" by (cases ds) auto
  with assms(3) have d: "is_digit d" by simp
  have "dropWhile (\<lambda>c. \<not> is_digit c) (pre @ ds @ post) = dropWhile (\<lambda>c. \<not> is_digit c) (ds @ post)"
    using assms(1) by (simp add: dropWhile_append2)
  also have "\<dots> = ds @ post" using ds d by simp
  finally have "first_digits (pre @ ds @ post) = takeWhile is_digit (ds @ post)"
    by (simp add: first_digits_def)
  also have "\<dots> = ds @ takeWhile is_digit post"
    using assms(3) by (simp add: takeWhile_append2)
  also have "takeWhile is_digit post = []"
    using assms(4) by (cases post) auto
  finally show ?thesis by simp
qed

lemma first_digits_none:
  assumes "\<forall>c \<in> set s. \<not> is_digit c"
  shows "first_digits s = []"
proof -
  have "dropWhile (\<lambda>c. \<not> is_digit c) s = []"
    using assms by (simp add: dropWhile_eq_Nil_conv)
  then show ?thesis unfolding first_digits_def by (simp only: takeWhile.simps)
qed

lemma first_digits_are_digits: "\<forall>c \<in> set (first_digits s). is_digit c"
  by (auto simp: first_digits_def dest: set_takeWhileD)

lemma foldl_digits_nonneg:
  "0 \<le> n \<Longrightarrow> \<forall>c \<in> set ds. is_digit c \<Longrightarrow>
     0 \<le> foldl (\<lambda>n c. 10 * n + (int (of_char c) - 48)) n ds"
proof (induction ds arbitrary: n)
  case Nil
  then show ?case by simp
next
  case (Cons d ds)
  from Cons.prems have "48 \<le> (of_char d :: nat)"
    by (simp add: is_digit_def less_eq_char_def)
  with Cons.prems have "0 \<le> 10 * n + (int (of_char d) - 48)" by simp
  with Cons show ?case by simp
qed

lemma int_of_digits_nonneg: "\<forall>c \<in> set ds. is_digit c \<Longrightarrow> 0 \<le> int_of_digits ds"
  by (simp add: int_of_digits_def foldl_digits_nonneg)

lemma find_size_upper: "find_size pl ss = Some u \<Longrightarrow> u \<in> upper ` set ss"
  by (induction ss) (auto split: if_splits)

lemma upper_size_tokens:
  "upper ` set [''xs'', ''s'', ''m'', ''l'', ''xl'', ''xxl''] = set size_literals"
proof -
  have "map upper [''xs'', ''s'', ''m'', ''l'', ''xl'', ''xxl''] = size_literals"
    by code_simp
  then have "set (map upper [''xs'', ''s'', ''m'', ''l'', ''xl'', ''xxl'']) = set size_literals"
    by simp
  then show ?thesis by (simp only: set_map)
qed

lemma fallback_fields_valid:
  assumes "case b of None \<Rightarrow> True | Some v \<Rightarrow> 0 \<le> v"
  shows "valid_parsed_prompt
     \<lparr>aesthetic = prompt, budget = b,
      size = find_size pl [''xs'', ''s'', ''m'', ''l'', ''xl'', ''xxl''],
      gender = Some (if g1 then ''male'' else if g2 then ''female'' else ''unisex''),
      occasion = None,
      categories = ([''top'', ''bottom''] @ (if c1 then [''shoes''] else []))
                     @ (if c2 then [''accessories''] else [])\<rparr>"
proof -
  have s: "\<And>u. find_size pl [''xs'', ''s'', ''m'', ''l'', ''xl'', ''xxl''] = Some u
             \<Longrightarrow> u \<in> set size_literals"
    using find_size_upper upper_size_tokens by blast
  show ?thesis
    using assms s
    by (auto simp: valid_parsed_prompt_def gender_literals_def category_literals_def
             split: option.splits)
qed

text \<open>
  The result for a prompt whose first run of digits, if any, has at most 4300 digits.
\<close>

lemma create_fallback_parse_eq:
  assumes "length (first_digits (lower prompt)) \<le> 4300"
  shows "create_fallback_parse prompt =
     Inr \<lparr>aesthetic = prompt,
          budget = (if first_digits (lower prompt) \<noteq> []
                    then Some (int_of_digits (first_digits (lower prompt))) else None),
          size = find_size (lower prompt) [''xs'', ''s'', ''m'', ''l'', ''xl'', ''xxl''],
          gender = Some (if contains ''men'' (lower prompt) \<or> contains ''male'' (lower prompt)
                         then ''male''
                         else if contains ''women'' (lower prompt)
                                 \<or> contains ''female'' (lower prompt)
                         then ''female'' else ''unisex''),
          occasion = None,
          categories = ([''top'', ''bottom'']
                          @ (if contains ''shoe'' (lower prompt) then [''shoes''] else []))
                         @ (if contains ''accessor'' (lower prompt) then [''accessories''] else [])\<rparr>"
proof -
  let ?b = "if first_digits (lower prompt) \<noteq> []
            then Some (int_of_digits (first_digits (lower prompt))) else None"
  let ?r = "\<lparr>aesthetic = prompt, budget = ?b,
          size = find_size (lower prompt) [''xs'', ''s'', ''m'', ''l'', ''xl'', ''xxl''],
          gender = Some (if contains ''men'' (lower prompt) \<or> contains ''male'' (lower prompt)
                         then ''male''
                         else if contains ''women'' (lower prompt)
                                 \<or> contains ''female'' (lower prompt)
                         then ''female'' else ''unisex''),
          occasion = None,
          categories = ([''top'', ''bottom'']
                          @ (if contains ''shoe'' (lower prompt) then [''shoes''] else []))
                         @ (if contains ''accessor'' (lower prompt) then [''accessories''] else [])\<rparr>"
  have "0 \<le> int_of_digits (first_digits (lower prompt))"
    by (rule int_of_digits_nonneg) (rule first_digits_are_digits)
  then have "case ?b of None \<Rightarrow> True | Some v \<Rightarrow> 0 \<le> v" by simp
  then have v: "valid_parsed_prompt ?r" by (rule fallback_fields_valid)
  have "create_fallback_parse prompt = ParsedPrompt ?r"
    using assms by (simp add: create_fallback_parse_def py_int_def Let_def)
  with v show ?thesis by (simp add: ParsedPrompt_def)
qed

text \<open>A prompt whose first run of digits has more than 4300 digits.\<close>

lemma create_fallback_parse_raises:
  assumes "4300 < length (first_digits (lower prompt))"
  shows "create_fallback_parse prompt = Inl ValueError"
proof -
  from assms have "first_digits (lower prompt) \<noteq> []" by auto
  with assms show ?thesis by (simp add: create_fallback_parse_def py_int_def Let_def)
qed

lemma fallback_budget_run:
  assumes "prompt = pre @ ds @ post" and "\<forall>c \<in> set pre. \<not> is_digit c" and "ds \<noteq> []"
    and "\<forall>c \<in> set ds. is_digit c" and "post = [] \<or> \<not> is_digit (hd post)"
  shows "first_digits (lower prompt) = ds"
proof -
  have "lower prompt = lower pre @ lower ds @ lower post"
    using assms(1) by (simp add: lower_def)
  also have "lower ds = ds" using assms(4) by (rule lower_digits)
  finally have l: "lower prompt = lower pre @ ds @ lower post" .
  have p: "\<forall>c \<in> set (lower pre). \<not> is_digit c"
    using assms(2) by (auto simp: lower_def is_digit_lower_char)
  have q: "lower post = [] \<or> \<not> is_digit (hd (lower post))"
    using assms(5) by (cases post) (auto simp: lower_def is_digit_lower_char)
  show ?thesis unfolding l using p assms(3,4) q by (rule first_digits_run)
qed

lemma fallback_digits_only:
  assumes "0 < n"
  shows "first_digits (lower (replicate n CHR ''7'')) = replicate n CHR ''7''"
proof -
  have d: "is_digit CHR ''7''" by code_simp
  have "replicate n CHR ''7'' = [] @ replicate n CHR ''7'' @ []" by simp
  then show ?thesis
    by (rule fallback_budget_run) (use assms d in simp_all)
qed

text \<open>Substrings: \<open>contains sub s\<close> holds when \<open>s\<close> has the form \<open>pre @ sub @ post\<close>.\<close>

lemma startswith_iff: "startswith s p = (\<exists>post. s = p @ post)"
  by (induction s p rule: startswith.induct) auto

lemma contains_iff: "contains sub s = (\<exists>pre post. s = pre @ sub @ post)"
proof (induction s)
  case Nil
  then show ?case by auto
next
  case (Cons c cs)
  show ?case
  proof
    assume "contains sub (c # cs)"
    then consider "startswith (c # cs) sub" | "contains sub cs" by auto
    then show "\<exists>pre post. c # cs = pre @ sub @ post"
    proof cases
      case 1
      then obtain post where "c # cs = sub @ post" by (auto simp: startswith_iff)
      then have "c # cs = [] @ sub @ post" by simp
      then show ?thesis by blast
    next
      case 2
      with Cons obtain pre post where "cs = pre @ sub @ post" by blast
      then have "c # cs = (c # pre) @ sub @ post" by simp
      then show ?thesis by blast
    qed
  next
    assume "\<exists>pre post. c # cs = pre @ sub @ post"
    then obtain pre post where e: "c # cs = pre @ sub @ post" by blast
    show "contains sub (c # cs)"
    proof (cases pre)
      case Nil
      with e have "startswith (c # cs) sub" by (auto simp: startswith_iff)
      then show ?thesis by simp
    next
      case (Cons p pre')
      with e have "cs = pre' @ sub @ post" by simp
      with Cons.IH have "contains sub cs" by blast
      then show ?thesis by simp
    qed
  qed
qed

lemma contains_women: "contains ''women'' s \<Longrightarrow> contains ''men'' s"
proof -
  assume "contains ''women'' s"
  then obtain pre post where "s = pre @ ''women'' @ post" by (auto simp: contains_iff)
  then have "s = (pre @ ''wo'') @ ''men'' @ post" by simp
  then show ?thesis unfolding contains_iff by blast
qed

lemma contains_female: "contains ''female'' s \<Longrightarrow> contains ''male'' s"
proof -
  assume "contains ''female'' s"
  then obtain pre post where "s = pre @ ''female'' @ post" by (auto simp: contains_iff)
  then have "s = (pre @ ''fe'') @ ''male'' @ post" by simp
  then show ?thesis unfolding contains_iff by blast
qed

text \<open>
  The branch of \<open>_create_fallback_parse\<close> that sets the gender \<open>female\<close> is never
  taken: a prompt with \<open>women\<close> or \<open>female\<close> in it has \<open>men\<close> or \<open>male\<close> in it
  and is given the gender \<open>male\<close>.
\<close>

lemma fallback_never_female:
  assumes "create_fallback_parse prompt = Inr r"
  shows "gender r \<noteq> Some ''female''"
    and "contains ''women'' (lower prompt) \<or> contains ''female'' (lower prompt)
           \<Longrightarrow> gender r = Some ''male''"
proof -
  have l: "length (first_digits (lower prompt)) \<le> 4300"
  proof (rule ccontr)
    assume "\<not> length (first_digits (lower prompt)) \<le> 4300"
    then have "create_fallback_parse prompt = Inl ValueError"
      by (intro create_fallback_parse_raises) simp
    with assms show False by simp
  qed
  from assms create_fallback_parse_eq [OF l]
  have g: "gender r = Some (if contains ''men'' (lower prompt) \<or> contains ''male'' (lower prompt)
                         then ''male''
                         else if contains ''women'' (lower prompt)
                                 \<or> contains ''female'' (lower prompt)
                         then ''female'' else ''unisex'')"
    by auto
  show "gender r \<noteq> Some ''female''"
    using g contains_women [of "lower prompt"] contains_female [of "lower prompt"]
    by (auto split: if_splits)
  show "contains ''women'' (lower prompt) \<or> contains ''female'' (lower prompt)
           \<Longrightarrow> gender r = Some ''male''"
    using g contains_women [of "lower prompt"] contains_female [of "lower prompt"] by auto
qed

text \<open>
  The size: the first token, in the order \<open>xs\<close>, \<open>s\<close>, \<open>m\<close>, \<open>l\<close>, \<open>xl\<close>,
  \<open>xxl\<close>, that stands between two spaces of the prompt padded with a space at each
  end, or that follows \<open>size\<close> and a space anywhere in the prompt.
\<close>

lemma find_size_first:
  "find_size pl ss =
     map_option upper
       (List.find (\<lambda>s. contains ('' '' @ s @ '' '') ('' '' @ pl @ '' '')
                        \<or> contains (''size '' @ s) pl) ss)"
  by (induction ss) simp_all

lemma fallback_example:
  "create_fallback_parse ''korean minimal outfit for a coffee date under 2000'' =
     Inr \<lparr>aesthetic = ''korean minimal outfit for a coffee date under 2000'',
          budget = Some 2000, size = None, gender = Some ''unisex'', occasion = None,
          categories = [''top'', ''bottom'']\<rparr>"
  by code_simp

lemma fallback_women: 
  "create_fallback_parse ''date outfit for women'' =
     Inr \<lparr>aesthetic = ''date outfit for women'', budget = None, size = None,
          gender = Some ''male'', occasion = None, categories = [''top'', ''bottom'']\<rparr>"
  by code_simp

lemma fallback_oversize:
  "create_fallback_parse ''oversize sweater'' =
     Inr \<lparr>aesthetic = ''oversize sweater'', budget = None, size = Some ''S'',
          gender = Some ''unisex'', occasion = None, categories = [''top'', ''bottom'']\<rparr>"
  by code_simp

lemma fallback_size_comma:
  "create_fallback_parse ''a top in m, please'' =
     Inr \<lparr>aesthetic = ''a top in m, please'', budget = None, size = None,
          gender = Some ''unisex'', occasion = None, categories = [''top'', ''bottom'']\<rparr>"
  by code_simp

lemma fallback_long_number:
  "create_fallback_parse (replicate 4301 CHR ''7'') = Inl ValueError"
proof -
  have "first_digits (lower (replicate 4301 CHR ''7'')) = replicate 4301 CHR ''7''"
    by (rule fallback_digits_only) simp
  then have "4300 < length (first_digits (lower (replicate 4301 CHR ''7'')))" by simp
  then show ?thesis by (rule create_fallback_parse_raises)
qed

text \<open>
  Claim C7 against the code. The prompt \<open>date outfit for women\<close> has the keyword
  \<open>women\<close> and is given the gender \<open>male\<close>, because the test for \<open>men\<close> comes
  first and \<open>women\<close> contains \<open>men\<close>. The size tokens are not matched at word
  boundaries: \<open>oversize sweater\<close> is given the size \<open>S\<close>, and \<open>a top in m,
  please\<close> no size. The extractor is not total: a prompt of 4301 digits raises
  ValueError.
\<close>

theorem fallback_parse_failing_input:
  "create_fallback_parse ''date outfit for women'' =
     Inr \<lparr>aesthetic = ''date outfit for women'', budget = None, size = None,
          gender = Some ''male'', occasion = None, categories = [''top'', ''bottom'']\<rparr>
   \<and> create_fallback_parse ''oversize sweater'' =
     Inr \<lparr>aesthetic = ''oversize sweater'', budget = None, size = Some ''S'',
          gender = Some ''unisex'', occasion = None, categories = [''top'', ''bottom'']\<rparr>
   \<and> create_fallback_parse ''a top in m, please'' =
     Inr \<lparr>aesthetic = ''a top in m, please'', budget = None, size = None,
          gender = Some ''unisex'', occasion = None, categories = [''top'', ''bottom'']\<rparr>
   \<and> create_fallback_parse (replicate 4301 CHR ''7'') = Inl ValueError"
  using fallback_women fallback_oversize fallback_size_comma fallback_long_number by simp

section \<open>Cache keys\<close>

lemma lower_char_space: "is_space c \<Longrightarrow> lower_char c = c"
  by (auto simp: is_space_def lower_char_def)

lemma lower_spaces: "\<forall>c \<in> set w. is_space c \<Longrightarrow> lower w = w"
  by (induction w) (simp_all add: lower_def lower_char_space)

lemma lower_append: "lower (a @ b) = lower a @ lower b"
  by (simp add: lower_def)

lemma strip_all_space:
  assumes "\<forall>c \<in> set s. is_space c"
  shows "strip s = []"
proof -
  have "dropWhile is_space s = []"
    using assms by (simp add: dropWhile_eq_Nil_conv)
  then show ?thesis unfolding strip_def by (simp only: rev.simps dropWhile.simps)
qed

lemma strip_padding:
  assumes w1: "\<forall>c \<in> set w1. is_space c" and w2: "\<forall>c \<in> set w2. is_space c"
  shows "strip (w1 @ s @ w2) = strip s"
proof (cases "\<forall>c \<in> set s. is_space c")
  case True
  with w1 w2 have "\<forall>c \<in> set (w1 @ s @ w2). is_space c" by auto
  then have "strip (w1 @ s @ w2) = []" by (rule strip_all_space)
  moreover from True have "strip s = []" by (rule strip_all_space)
  ultimately show ?thesis by simp
next
  case False
  then obtain c where c: "c \<in> set s" "\<not> is_space c" by auto
  have "dropWhile is_space (w1 @ s @ w2) = dropWhile is_space (s @ w2)"
    using w1 by (simp add: dropWhile_append2)
  also have "\<dots> = dropWhile is_space s @ w2"
    using c by (rule dropWhile_append1)
  finally have "rev (dropWhile is_space (w1 @ s @ w2)) = rev w2 @ rev (dropWhile is_space s)"
    by simp
  moreover have "dropWhile is_space (rev w2 @ rev (dropWhile is_space s))
                   = dropWhile is_space (rev (dropWhile is_space s))"
    by (rule dropWhile_append2) (use w2 in simp)
  ultimately show ?thesis by (simp add: strip_def)
qed

lemma parse_key_normalized:
  assumes "\<forall>c \<in> set (w1 @ w2 @ w3 @ w4). is_space c" and "lower s = lower t"
  shows "parse_generate_cache_key md5 (w1 @ s @ w2) = parse_generate_cache_key md5 (w3 @ t @ w4)"
proof -
  from assms(1) have w: "\<forall>c \<in> set w1. is_space c" "\<forall>c \<in> set w2. is_space c"
    "\<forall>c \<in> set w3. is_space c" "\<forall>c \<in> set w4. is_space c"
    by auto
  have "strip (lower (w1 @ s @ w2)) = strip (w1 @ lower s @ w2)"
    using w(1,2) by (simp add: lower_append lower_spaces)
  also have "\<dots> = strip (lower s)" using w(1,2) by (rule strip_padding)
  also have "\<dots> = strip (lower t)" using assms(2) by simp
  also have "\<dots> = strip (w3 @ lower t @ w4)" using w(3,4) by (rule strip_padding [symmetric])
  also have "\<dots> = strip (lower (w3 @ t @ w4))"
    using w(3,4) by (simp add: lower_append lower_spaces)
  finally show ?thesis by (simp add: parse_generate_cache_key_def)
qed

lemma sort_permutation:
  fixes cs :: "'a::linorder list"
  assumes "mset cs = mset cs'"
  shows "sort cs = sort cs'"
  using assms by (intro properties_for_sort) simp_all

lemma plan_key_category_order:
  assumes "mset cs = mset cs'"
  shows "plan_generate_cache_key md5 (p\<lparr>categories := cs\<rparr>)
           = plan_generate_cache_key md5 (p\<lparr>categories := cs'\<rparr>)"
  using sort_permutation [OF assms] by (simp add: plan_generate_cache_key_def)

text \<open>
  Claim C8. Both key derivations are functions of their argument (and of the hash).
  Two prompts that differ only in the whitespace around them and in the case of their
  letters have the same parse key; in particular \<open>"Korean Minimal "\<close> and
  \<open>"korean minimal"\<close> do. Two plan requests whose category lists are permutations of
  one another, all other fields equal, have the same plan key.
\<close>

theorem cache_key_normalization:
  "((\<forall>c \<in> set (w1 @ w2 @ w3 @ w4). is_space c) \<and> lower s = lower t
      \<longrightarrow> parse_generate_cache_key md5 (w1 @ s @ w2) = parse_generate_cache_key md5 (w3 @ t @ w4))
   \<and> parse_generate_cache_key md5 ''Korean Minimal '' = parse_generate_cache_key md5 ''korean minimal''
   \<and> (mset cs = mset cs'
      \<longrightarrow> plan_generate_cache_key md5 (p\<lparr>categories := cs\<rparr>)
            = plan_generate_cache_key md5 (p\<lparr>categories := cs'\<rparr>))"
proof -
  have sp: "\<forall>c \<in> set ([] @ '' '' @ [] @ []). is_space c" by (simp add: is_space_def)
  have lo: "lower ''Korean Minimal'' = lower ''korean minimal''" by code_simp
  have "parse_generate_cache_key md5 ([] @ ''Korean Minimal'' @ '' '')
          = parse_generate_cache_key md5 ([] @ ''korean minimal'' @ [])"
    using sp lo by (rule parse_key_normalized)
  then have k: "parse_generate_cache_key md5 ''Korean Minimal ''
                  = parse_generate_cache_key md5 ''korean minimal''"
    by simp
  show ?thesis
    using parse_key_normalized [of w1 w2 w3 w4 s t md5] k plan_key_category_order [of cs cs' md5 p]
    by blast
qed

theorem cache_key_normalization_witness:
  "parse_generate_cache_key (\<lambda>x. x) ''  Office WEAR'' = parse_generate_cache_key (\<lambda>x. x) ''office wear  ''
   \<and> plan_generate_cache_key (\<lambda>x. x)
        \<lparr>aesthetic = ''Y2K'', budget = None, size = None, gender = Some ''female'',
         occasion = Some ''party'', categories = [''top'', ''shoes'', ''bottom'']\<rparr>
     = plan_generate_cache_key (\<lambda>x. x)
        \<lparr>aesthetic = ''Y2K'', budget = None, size = None, gender = Some ''female'',
         occasion = Some ''party'', categories = [''bottom'', ''top'', ''shoes'']\<rparr>"
proof -
  let ?p = "\<lparr>aesthetic = ''Y2K'', budget = None, size = None, gender = Some ''female'',
         occasion = Some ''party'', categories = []\<rparr>"
  have sp: "\<forall>c \<in> set (''  '' @ [] @ [] @ ''  ''). is_space c" by (simp add: is_space_def)
  have lo: "lower ''Office WEAR'' = lower ''office wear''" by code_simp
  have ms: "mset [''top'', ''shoes'', ''bottom''] = mset [''bottom'', ''top'', ''shoes'']"
    by (simp add: add.commute add.left_commute)
  have a: "parse_generate_cache_key (\<lambda>x. x) (''  '' @ ''Office WEAR'' @ [])
             = parse_generate_cache_key (\<lambda>x. x) ([] @ ''office wear'' @ ''  '')"
    using cache_key_normalization [of "''  ''" "[]" "[]" "''  ''" "''Office WEAR''" "''office wear''" "\<lambda>x. x"]
      sp lo by blast
  have b: "plan_generate_cache_key (\<lambda>x. x) (?p\<lparr>categories := [''top'', ''shoes'', ''bottom'']\<rparr>)
             = plan_generate_cache_key (\<lambda>x. x) (?p\<lparr>categories := [''bottom'', ''top'', ''shoes'']\<rparr>)"
    using cache_key_normalization [of _ _ _ _ _ _ "\<lambda>x. x" "[''top'', ''shoes'', ''bottom'']"
        "[''bottom'', ''top'', ''shoes'']" ?p] ms
    by blast
  from a b show ?thesis by simp
qed

section \<open>The retry executor\<close>




















section \<open>Backoff delays\<close>




lemma power_abs_mono:
  fixes b :: real
  assumes "k \<le> n" and "\<bar>b ^ n\<bar> < T" and "1 < T"
  shows "\<bar>b ^ k\<bar> < T"
proof (cases "\<bar>b\<bar> \<le> 1")
  case True
  then have "\<bar>b\<bar> ^ k \<le> 1" by (intro power_le_one) simp_all
  with assms(3) show ?thesis by (simp add: power_abs)
next
  case False
  then have "\<bar>b\<bar> ^ k \<le> \<bar>b\<bar> ^ n" using assms(1) by (intro power_increasing) simp_all
  with assms(2) show ?thesis by (simp add: power_abs)
qed








section \<open>Failures during a similarity search\<close>

lemma search_embedding_failure:
  "target_embedding env request = Inl e \<Longrightarrow> search_similar env request = Inl e"
  by (simp add: search_similar_def)

lemma search_connect_failure:
  "target_embedding env request = Inr emb \<Longrightarrow> connect env = Some e
     \<Longrightarrow> search_similar env request = Inl e"
  by (simp add: search_similar_def)

lemma search_query_failure:
  "target_embedding env request = Inr emb \<Longrightarrow> connect env = None
     \<Longrightarrow> run_query env request emb = Inl e \<Longrightarrow> search_similar env request = Inr []"
  by (simp add: search_similar_def)

lemma run_query_execute_failure:
  "(\<And>w ps. execute env w ps = Inl e) \<Longrightarrow> run_query env request emb = Inl e"
  by (simp add: run_query_def Let_def split: prod.splits)

text \<open>
  Claim C4, as stated, fails: with a working connection and a query that raises, the
  search started with an embedding returns the empty list, not the error.
\<close>

theorem search_swallows_query_failure:
  "execute store_query_fails ''WHERE category = %s'' [PEmb [1, 0], PStr ''top'', PEmb [1, 0], PInt 10]
     = Inl (UpstreamError ''server closed the connection'')
   \<and> search_similar store_query_fails search_by_embedding = Inr []
   \<and> search_similar store_query_fails search_by_embedding
       \<noteq> Inl (UpstreamError ''server closed the connection'')"
  by (simp add: store_query_fails_def search_by_embedding_def search_similar_def
      target_embedding_def truthy_def run_query_def build_filters_def)

text \<open>
  Claim C4, amended. A failure of embedding generation (image or text) and a failure
  to connect to the store leave \<open>search_similar\<close> unchanged, and a request without
  embedding, image and text raises ValueError. A failure inside the try block, while
  the query runs or its rows are converted, is caught and answered with the empty
  list.
\<close>

theorem search_failure_propagation:
  "(truthy (req_embedding request) = None \<and> truthy (req_image_url request) = Some url
      \<and> encode_image env url = Inl e \<longrightarrow> search_similar env request = Inl e)
   \<and> (truthy (req_embedding request) = None \<and> truthy (req_image_url request) = None
      \<and> truthy (req_text request) = Some t \<and> encode_text env t = Inl e
      \<longrightarrow> search_similar env request = Inl e)
   \<and> (truthy (req_embedding request) = None \<and> truthy (req_image_url request) = None
      \<and> truthy (req_text request) = None \<longrightarrow> search_similar env request = Inl ValueError)
   \<and> (target_embedding env request = Inr emb \<and> connect env = Some e
      \<longrightarrow> search_similar env request = Inl e)
   \<and> (target_embedding env request = Inr emb \<and> connect env = None
      \<and> run_query env request emb = Inl e \<longrightarrow> search_similar env request = Inr [])"
proof -
  have 1: "truthy (req_embedding request) = None \<and> truthy (req_image_url request) = Some url
      \<and> encode_image env url = Inl e \<longrightarrow> search_similar env request = Inl e"
    by (auto intro!: search_embedding_failure simp: target_embedding_def)
  have 2: "truthy (req_embedding request) = None \<and> truthy (req_image_url request) = None
      \<and> truthy (req_text request) = Some t \<and> encode_text env t = Inl e
      \<longrightarrow> search_similar env request = Inl e"
    by (auto intro!: search_embedding_failure simp: target_embedding_def)
  have 3: "truthy (req_embedding request) = None \<and> truthy (req_image_url request) = None
      \<and> truthy (req_text request) = None \<longrightarrow> search_similar env request = Inl ValueError"
    by (auto intro!: search_embedding_failure simp: target_embedding_def)
  from 1 2 3 search_connect_failure [of env request emb e]
    search_query_failure [of env request emb e]
  show ?thesis by blast
qed

theorem search_failure_propagation_witness:
  "search_similar
      \<lparr>encode_image = (\<lambda>url. Inl (UpstreamError ''image fetch failed'')),
       encode_text = (\<lambda>t. Inl (UpstreamError ''model not loaded'')), connect = None,
       execute = (\<lambda>w ps. Inr [])\<rparr>
      \<lparr>req_text = Some ''white sneakers'', req_image_url = None, req_embedding = None,
       req_category = None, req_min_price = None, req_max_price = None, req_limit = 5\<rparr>
     = Inl (UpstreamError ''model not loaded'')
   \<and> search_similar
      \<lparr>encode_image = (\<lambda>url. Inl (UpstreamError ''image fetch failed'')),
       encode_text = (\<lambda>t. Inl (UpstreamError ''model not loaded'')), connect = None,
       execute = (\<lambda>w ps. Inr [])\<rparr>
      \<lparr>req_text = None, req_image_url = Some ''http://x/y.png'', req_embedding = Some [],
       req_category = None, req_min_price = None, req_max_price = None, req_limit = 5\<rparr>
     = Inl (UpstreamError ''image fetch failed'')
   \<and> search_similar store_query_fails
      \<lparr>req_text = None, req_image_url = None, req_embedding = None,
       req_category = None, req_min_price = None, req_max_price = None, req_limit = 5\<rparr>
     = Inl ValueError
   \<and> search_similar (store_query_fails\<lparr>connect := Some (UpstreamError ''connection refused'')\<rparr>)
        search_by_embedding
     = Inl (UpstreamError ''connection refused'')
   \<and> search_similar store_query_fails search_by_embedding = Inr []"
proof -
  let ?env = "\<lparr>encode_image = (\<lambda>url. Inl (UpstreamError ''image fetch failed'')),
       encode_text = (\<lambda>t. Inl (UpstreamError ''model not loaded'')), connect = None,
       execute = (\<lambda>w ps. Inr [])\<rparr>"
  let ?rt = "\<lparr>req_text = Some ''white sneakers'', req_image_url = None, req_embedding = None,
       req_category = None, req_min_price = None, req_max_price = None, req_limit = 5\<rparr>"
  let ?ri = "\<lparr>req_text = None, req_image_url = Some ''http://x/y.png'', req_embedding = Some [],
       req_category = None, req_min_price = None, req_max_price = None, req_limit = 5\<rparr>"
  let ?rn = "\<lparr>req_text = None, req_image_url = None, req_embedding = None,
       req_category = None, req_min_price = None, req_max_price = None, req_limit = 5\<rparr>"
  let ?down = "store_query_fails\<lparr>connect := Some (UpstreamError ''connection refused'')\<rparr>"
  have a: "search_similar ?env ?rt = Inl (UpstreamError ''model not loaded'')"
    using search_failure_propagation
      [where env = ?env and request = ?rt and t = "''white sneakers''"
         and e = "UpstreamError ''model not loaded''"]
    by (simp add: truthy_def)
  have b: "search_similar ?env ?ri = Inl (UpstreamError ''image fetch failed'')"
    using search_failure_propagation
      [where env = ?env and request = ?ri and url = "''http://x/y.png''"
         and e = "UpstreamError ''image fetch failed''"]
    by (simp add: truthy_def)
  have c: "search_similar store_query_fails ?rn = Inl ValueError"
    using search_failure_propagation [where env = store_query_fails and request = ?rn]
    by (simp add: truthy_def)
  have t: "target_embedding ?down search_by_embedding = Inr [1, 0]"
    "target_embedding store_query_fails search_by_embedding = Inr [1, 0]"
    by (simp_all add: target_embedding_def search_by_embedding_def truthy_def)
  have d: "search_similar ?down search_by_embedding = Inl (UpstreamError ''connection refused'')"
    using search_failure_propagation
      [where env = ?down and request = search_by_embedding and emb = "[1, 0]"
         and e = "UpstreamError ''connection refused''"] t
    by simp
  have q: "run_query store_query_fails search_by_embedding [1, 0]
             = Inl (UpstreamError ''server closed the connection'')"
    by (rule run_query_execute_failure) (simp add: store_query_fails_def)
  have e: "search_similar store_query_fails search_by_embedding = Inr []"
    using search_failure_propagation
      [where env = store_query_fails and request = search_by_embedding and emb = "[1, 0]"
         and e = "UpstreamError ''server closed the connection''"] t q
    by (simp add: store_query_fails_def)
  from a b c d e show ?thesis by blast
qed

section \<open>The nearest aesthetic\<close>

lemma nearest_body_raises: "\<exists>e. nearest_body model aesthetics prompt = Inl e"
  by (cases "model prompt") (simp_all add: nearest_body_def clip_encode_text_def)

lemma find_nearest_aesthetic_absent: "find_nearest_aesthetic model aesthetics prompt = None"
  using nearest_body_raises [of model aesthetics prompt]
  by (auto simp: find_nearest_aesthetic_def)

lemma best_loop_example:
  "best_loop [Fin 1, Fin 0]
     [(''Korean Minimal'', [Fin 1, Fin 0]), (''Streetwear'', [Fin 0, Fin 1])] None (Fin (- 1))
   = Inr (Some ''Korean Minimal'')"
  by (simp add: np_dot_def float_eval)

text \<open>
  Claim C5 against the code. The encoder returns a Python list; its division by the
  norm raises TypeError, which the function catches, so the result is \<open>None\<close> for
  every prompt and every set of reference vectors. Here the prompt's vector equals
  the first of two reference vectors: the function returns \<open>None\<close>, while the loop
  on the normalised vector would return the first label.
\<close>

theorem find_nearest_aesthetic_failing_input:
  "find_nearest_aesthetic (\<lambda>t. Inr [Fin 1, Fin 0])
     [(''Korean Minimal'', [Fin 1, Fin 0]), (''Streetwear'', [Fin 0, Fin 1])] ''korean minimal''
     = None
   \<and> best_loop [Fin 1, Fin 0]
       [(''Korean Minimal'', [Fin 1, Fin 0]), (''Streetwear'', [Fin 0, Fin 1])] None (Fin (- 1))
     = Inr (Some ''Korean Minimal'')"
  using find_nearest_aesthetic_absent best_loop_example by simp

section \<open>Coherence of an outfit\<close>



















lemma mean_similarity_pair:
  "mean_similarity [u, v] = dot (unit_vector u) (unit_vector v)"
  by (simp add: mean_similarity_def Let_def numeral_2_eq_2 lessThan_Suc)

lemma coherence_spec_pair:
  "coherence_spec [u, v] =
     max 0 (min 1 (if dot (unit_vector u) (unit_vector v) < 0.6
                   then dot (unit_vector u) (unit_vector v)
                          * (dot (unit_vector u) (unit_vector v) / 0.6)
                   else dot (unit_vector u) (unit_vector v)))"
  by (simp add: coherence_spec_def Let_def mean_similarity_pair)















section \<open>Coherence never raises\<close>

lemma clamp_unit_range: "\<exists>r. py_max (Fin 0) (py_min (Fin 1) x) = Fin r \<and> 0 \<le> r \<and> r \<le> 1"
  by (cases x) (auto simp: py_max_def py_min_def)

lemma coherence_body_range:
  assumes "coherence_body embeddings = Inr score"
  shows "\<exists>r. score = Fin r \<and> 0 \<le> r \<and> r \<le> 1"
proof -
  from assms obtain x where "score = py_max (Fin 0) (py_min (Fin 1) x)"
    by (auto simp: coherence_body_def Let_def split: sum.splits)
  with clamp_unit_range [of x] show ?thesis by simp
qed

lemma coherence_total:
  "\<exists>r. calculate_coherence embeddings = Inr (Fin r) \<and> 0 \<le> r \<and> r \<le> 1"
proof (cases "length embeddings < 2")
  case True
  then show ?thesis by (simp add: calculate_coherence_def)
next
  case False
  show ?thesis
  proof (cases "coherence_body embeddings")
    case (Inl e)
    with False have "calculate_coherence embeddings = Inr (Fin 0.5)"
      by (simp add: calculate_coherence_def)
    then show ?thesis by (intro exI [of _ "0.5"]) simp
  next
    case (Inr score)
    with False coherence_body_range [OF Inr] show ?thesis
      by (simp add: calculate_coherence_def)
  qed
qed

lemma coherence_zero_vector:
  "calculate_coherence [[Fin 0, Fin 0], [Fin 1, Fin 0]] = Inr (Fin 1)"
  by (simp add: calculate_coherence_def coherence_body_def np_norm_def np_dot_def
      float_eval py_max_def py_min_def)

lemma coherence_mismatch_raises:
  "coherence_body [[Fin 1, Fin 0], [Fin 1]] = Inl ValueError"
  by (simp add: coherence_body_def np_norm_def np_dot_def float_eval)

text \<open>
  Claim C10. For every list of vectors of floats, NaN and the infinities included,
  \<open>calculate_coherence\<close> returns a float and raises nothing; the float is finite
  and lies between 0 and 1. When the computation inside fails, as it does for vectors
  of different dimensions, the result is 0.5.
\<close>

theorem coherence_never_raises:
  "(\<exists>r. calculate_coherence embeddings = Inr (Fin r) \<and> 0 \<le> r \<and> r \<le> 1)
   \<and> (2 \<le> length embeddings \<and> coherence_body embeddings = Inl e
        \<longrightarrow> calculate_coherence embeddings = Inr (Fin 0.5))"
  using coherence_total [of embeddings] by (simp add: calculate_coherence_def)

theorem coherence_never_raises_witness:
  "calculate_coherence [[Fin 1, Fin 0], [Fin 1]] = Inr (Fin 0.5)
   \<and> (\<exists>r. calculate_coherence [[Fin 0, Fin 0], [NaN, PInf]] = Inr (Fin r) \<and> 0 \<le> r \<and> r \<le> 1)"
  using coherence_never_raises [of "[[Fin 1, Fin 0], [Fin 1]]" ValueError]
    coherence_never_raises [of "[[Fin 0, Fin 0], [NaN, PInf]]" ValueError]
    coherence_mismatch_raises
  by simp

end
